theory Spec2Isabelle
  imports Complex_Main
begin

section \<open>Python exceptions and outcomes\<close>

text \<open>
  The exceptions the modelled code can raise. A method that mutates its object is a
  function from the state before the call to an outcome: the exception raised, if any,
  together with the state the call leaves behind. So a mutation made before a raise
  stays visible, as it does in Python.
\<close>

datatype error = KeyError | TypeError | AttributeError | ValueError | ZeroDivisionError

type_synonym 's outcome = "error option \<times> 's"

definition raised :: "'s outcome \<Rightarrow> bool" where
  "raised out = (fst out \<noteq> None)"

text \<open>Running two calls in sequence: the second runs only if the first returned.\<close>

definition and_then :: "('s \<Rightarrow> 's outcome) \<Rightarrow> ('s \<Rightarrow> 's outcome) \<Rightarrow> 's \<Rightarrow> 's outcome" where
  "and_then f g s = (case f s of (None, s') \<Rightarrow> g s' | (Some e, s') \<Rightarrow> (Some e, s'))"

section \<open>compas/colors/color.py\<close>

text \<open>
  \<^verbatim>\<open>Color.__init__\<close> stores its four arguments in the attributes \<open>r\<close>, \<open>g\<close>, \<open>b\<close>
  and \<open>a\<close> without converting or checking them. The components are modelled as real
  numbers.
\<close>

record Color =
  r :: real
  g :: real
  b :: real
  a :: real

definition Color_init :: "real \<Rightarrow> real \<Rightarrow> real \<Rightarrow> real \<Rightarrow> Color" where
  "Color_init red green blue alpha = \<lparr>r = red, g = green, b = blue, a = alpha\<rparr>"

text \<open>The \<^verbatim>\<open>data\<close> property: a dictionary with the four keys.\<close>

definition data :: "Color \<Rightarrow> (string \<rightharpoonup> real)" where
  "data self = [''red'' \<mapsto> r self, ''green'' \<mapsto> g self, ''blue'' \<mapsto> b self, ''alpha'' \<mapsto> a self]"

text \<open>Subscripting a dictionary raises \<^verbatim>\<open>KeyError\<close> on a missing key.\<close>

definition getitem :: "('k \<rightharpoonup> 'v) \<Rightarrow> 'k \<Rightarrow> error + 'v" where
  "getitem d k = (case d k of None \<Rightarrow> Inl KeyError | Some v \<Rightarrow> Inr v)"

definition from_data :: "(string \<rightharpoonup> real) \<Rightarrow> error + Color" where
  "from_data d =
     (case getitem d ''red'' of Inl e \<Rightarrow> Inl e | Inr red \<Rightarrow>
       (case getitem d ''green'' of Inl e \<Rightarrow> Inl e | Inr green \<Rightarrow>
         (case getitem d ''blue'' of Inl e \<Rightarrow> Inl e | Inr blue \<Rightarrow>
           (case getitem d ''alpha'' of Inl e \<Rightarrow> Inl e | Inr alpha \<Rightarrow>
              Inr (Color_init red green blue alpha)))))"

definition rgb :: "Color \<Rightarrow> real list" where
  "rgb self = [r self, g self, b self]"

definition Color_len :: "Color \<Rightarrow> nat" where
  "Color_len self = 3"

definition Color_iter :: "Color \<Rightarrow> real list" where
  "Color_iter self = rgb self"

text \<open>\<^verbatim>\<open>__eq__\<close>: \<^verbatim>\<open>all(a == b for a, b in zip(self, other))\<close>.\<close>

definition Color_eq :: "Color \<Rightarrow> Color \<Rightarrow> bool" where
  "Color_eq self other = list_all (\<lambda>(x, y). x = y) (zip (Color_iter self) (Color_iter other))"

text \<open>
  The module \<^verbatim>\<open>colorsys\<close> belongs to the Python standard library, not to the
  repository. Its two conversions used here are parameters of the model; each may raise
  (\<^verbatim>\<open>rgb_to_hls\<close> divides by the sum of the largest and smallest component).
\<close>

record colorsys =
  rgb_to_hls :: "real \<Rightarrow> real \<Rightarrow> real \<Rightarrow> error + (real \<times> real \<times> real)"
  hls_to_rgb :: "real \<Rightarrow> real \<Rightarrow> real \<Rightarrow> error + (real \<times> real \<times> real)"

definition hls :: "colorsys \<Rightarrow> Color \<Rightarrow> error + (real \<times> real \<times> real)" where
  "hls cs self = rgb_to_hls cs (r self) (g self) (b self)"

text \<open>
  The three in-place adjustments share one shape: the range check, the new factor, the
  conversion to HLS, the conversion back, and only then the three assignments.
\<close>

definition lighten :: "colorsys \<Rightarrow> real \<Rightarrow> Color \<Rightarrow> Color outcome" where
  "lighten cs factor self =
     (if factor > 100 \<or> factor < 0 then (Some ValueError, self)
      else let factor' = 1.0 + factor / 100 in
        (case hls cs self of Inl e \<Rightarrow> (Some e, self) | Inr (h, l, s) \<Rightarrow>
          (case hls_to_rgb cs h (min 1.0 (l * factor')) s of Inl e \<Rightarrow> (Some e, self)
           | Inr (r', g', b') \<Rightarrow> (None, self\<lparr>r := r', g := g', b := b'\<rparr>))))"

definition darken :: "colorsys \<Rightarrow> real \<Rightarrow> Color \<Rightarrow> Color outcome" where
  "darken cs factor self =
     (if factor > 100 \<or> factor < 0 then (Some ValueError, self)
      else let factor' = 1.0 - factor / 100 in
        (case hls cs self of Inl e \<Rightarrow> (Some e, self) | Inr (h, l, s) \<Rightarrow>
          (case hls_to_rgb cs h (max 0.0 (l * factor')) s of Inl e \<Rightarrow> (Some e, self)
           | Inr (r', g', b') \<Rightarrow> (None, self\<lparr>r := r', g := g', b := b'\<rparr>))))"

definition desaturate :: "colorsys \<Rightarrow> real \<Rightarrow> Color \<Rightarrow> Color outcome" where
  "desaturate cs factor self =
     (if factor > 100 \<or> factor < 0 then (Some ValueError, self)
      else let factor' = 1.0 - factor / 100 in
        (case hls cs self of Inl e \<Rightarrow> (Some e, self) | Inr (h, l, s) \<Rightarrow>
          (case hls_to_rgb cs h l (max 0.0 (s * factor')) of Inl e \<Rightarrow> (Some e, self)
           | Inr (r', g', b') \<Rightarrow> (None, self\<lparr>r := r', g := g', b := b'\<rparr>))))"

section \<open>compas/geometry/bbox/bbox.py\<close>

text \<open>
  A point is a Python sequence of coordinates, modelled as a list of reals; the two
  functions only compare coordinates, so no rounding is involved.

  \<^verbatim>\<open>zip(*points)\<close> yields one tuple per coordinate position, and stops at the first
  position that some point does not have. With no points at all it yields nothing.
\<close>

function zip_star :: "'v list list \<Rightarrow> 'v list list" where
  "zip_star ps = (if ps = [] \<or> [] \<in> set ps then [] else map hd ps # zip_star (map tl ps))"
  by pat_completeness auto
termination
proof (relation "measure (\<lambda>ps. length (hd ps))")
  fix ps :: "'v list list"
  assume "\<not> (ps = [] \<or> [] \<in> set ps)"
  then have "ps \<noteq> []" and "hd ps \<noteq> []"
    by (cases ps; auto)+
  then show "(map tl ps, ps) \<in> measure (\<lambda>ps. length (hd ps))"
    by (simp add: hd_map)
qed simp

declare zip_star.simps [simp del]

text \<open>\<^verbatim>\<open>min\<close> and \<^verbatim>\<open>max\<close> of a sequence raise \<^verbatim>\<open>ValueError\<close> when it is empty.\<close>

definition py_min :: "real list \<Rightarrow> error + real" where
  "py_min xs = (case xs of [] \<Rightarrow> Inl ValueError | x # xs' \<Rightarrow> Inr (fold min xs' x))"

definition py_max :: "real list \<Rightarrow> error + real" where
  "py_max xs = (case xs of [] \<Rightarrow> Inl ValueError | x # xs' \<Rightarrow> Inr (fold max xs' x))"

text \<open>Sequencing of calls that may raise: the first exception ends the computation.\<close>

definition sbind :: "error + 'v \<Rightarrow> ('v \<Rightarrow> error + 'w) \<Rightarrow> error + 'w" where
  "sbind m f = (case m of Inl e \<Rightarrow> Inl e | Inr v \<Rightarrow> f v)"

text \<open>
  Unpacking into \<open>x, y, z\<close> raises \<^verbatim>\<open>ValueError\<close> unless the right-hand side yields
  exactly three values.
\<close>

definition bounding_box :: "real list list \<Rightarrow> error + real list list" where
  "bounding_box points =
     (case zip_star points of
        [x, y, z] \<Rightarrow>
          sbind (py_min x) (\<lambda>min_x. sbind (py_max x) (\<lambda>max_x.
          sbind (py_min y) (\<lambda>min_y. sbind (py_max y) (\<lambda>max_y.
          sbind (py_min z) (\<lambda>min_z. sbind (py_max z) (\<lambda>max_z.
            Inr [[min_x, min_y, min_z],
                 [max_x, min_y, min_z],
                 [max_x, max_y, min_z],
                 [min_x, max_y, min_z],
                 [min_x, min_y, max_z],
                 [max_x, min_y, max_z],
                 [max_x, max_y, max_z],
                 [min_x, max_y, max_z]]))))))
      | _ \<Rightarrow> Inl ValueError)"

text \<open>\<^verbatim>\<open>islice(it, 2)\<close> yields the first two values of \<open>it\<close>, or fewer if it ends.\<close>

definition islice :: "'v list \<Rightarrow> nat \<Rightarrow> 'v list" where
  "islice it n = take n it"

definition bounding_box_xy :: "real list list \<Rightarrow> error + real list list" where
  "bounding_box_xy points =
     (case islice (zip_star points) 2 of
        [x, y] \<Rightarrow>
          sbind (py_min x) (\<lambda>min_x. sbind (py_max x) (\<lambda>max_x.
          sbind (py_min y) (\<lambda>min_y. sbind (py_max y) (\<lambda>max_y.
            Inr [[min_x, min_y, 0.0],
                 [max_x, min_y, 0.0],
                 [max_x, max_y, 0.0],
                 [min_x, max_y, 0.0]]))))
      | _ \<Rightarrow> Inl ValueError)"

section \<open>Python values, classes and objects\<close>

text \<open>
  A class has a name and its base classes. An object on the heap has a class and an
  attribute dictionary; a value is \<^verbatim>\<open>None\<close>, a boolean, a string or a reference to a
  heap object. Two references to the same address are aliases.
\<close>

datatype pyclass = PyClass (cls_name: string) (cls_bases: "pyclass list")

fun issubclass :: "pyclass \<Rightarrow> pyclass \<Rightarrow> bool" where
  "issubclass (PyClass n bases) T = (PyClass n bases = T \<or> (\<exists>B \<in> set bases. issubclass B T))"

datatype pyval = PyNone | PyBool bool | PyStr string | PyRef nat

record pyobj =
  obj_type :: pyclass
  obj_attrs :: "string \<rightharpoonup> pyval"

type_synonym heap = "nat \<Rightarrow> pyobj"

definition object_class :: pyclass where
  "object_class = PyClass ''object'' []"

definition NoneType :: pyclass where
  "NoneType = PyClass ''NoneType'' [object_class]"

definition int_class :: pyclass where
  "int_class = PyClass ''int'' [object_class]"

definition bool_class :: pyclass where
  "bool_class = PyClass ''bool'' [int_class]"

definition str_class :: pyclass where
  "str_class = PyClass ''str'' [object_class]"

text \<open>\<^verbatim>\<open>type(v)\<close>: the class of the value itself, never one of its bases.\<close>

definition type_of :: "heap \<Rightarrow> pyval \<Rightarrow> pyclass" where
  "type_of h v =
     (case v of PyNone \<Rightarrow> NoneType | PyBool _ \<Rightarrow> bool_class | PyStr _ \<Rightarrow> str_class
      | PyRef p \<Rightarrow> obj_type (h p))"

text \<open>
  Reading an attribute that the object does not have raises \<^verbatim>\<open>AttributeError\<close>, and so
  does reading or writing an attribute of \<^verbatim>\<open>None\<close>, a boolean or a string.
\<close>

definition getattr :: "heap \<Rightarrow> pyval \<Rightarrow> string \<Rightarrow> error + pyval" where
  "getattr h v attr =
     (case v of
        PyRef p \<Rightarrow> (case obj_attrs (h p) attr of None \<Rightarrow> Inl AttributeError | Some x \<Rightarrow> Inr x)
      | _ \<Rightarrow> Inl AttributeError)"

definition setattr :: "heap \<Rightarrow> pyval \<Rightarrow> string \<Rightarrow> pyval \<Rightarrow> error + heap" where
  "setattr h v attr x =
     (case v of
        PyRef p \<Rightarrow> Inr (h(p := (h p)\<lparr>obj_attrs := (obj_attrs (h p))(attr \<mapsto> x)\<rparr>))
      | _ \<Rightarrow> Inl AttributeError)"

section \<open>compas/scene/object.py\<close>

text \<open>
  The attributes \<^verbatim>\<open>_item\<close>, \<^verbatim>\<open>_uuid\<close>, \<^verbatim>\<open>_scene\<close>, \<^verbatim>\<open>_artist\<close> and \<^verbatim>\<open>visible\<close> of a scene
  object. The item is held by reference.
\<close>

record BaseObject =
  priv_item :: pyval
  priv_uuid :: pyval
  priv_scene :: pyval
  priv_artist :: pyval
  visible :: pyval

text \<open>The properties \<^verbatim>\<open>scene\<close> and \<^verbatim>\<open>item\<close>.\<close>

definition scene :: "BaseObject \<Rightarrow> pyval" where
  "scene self = priv_scene self"

definition item :: "BaseObject \<Rightarrow> pyval" where
  "item self = priv_item self"

text \<open>The property \<^verbatim>\<open>name\<close>: \<^verbatim>\<open>self.item.name\<close>, read and written.\<close>

definition name_get :: "heap \<times> BaseObject \<Rightarrow> error + pyval" where
  "name_get = (\<lambda>(h, self). getattr h (item self) ''name'')"

definition name_set :: "pyval \<Rightarrow> heap \<times> BaseObject \<Rightarrow> (heap \<times> BaseObject) outcome" where
  "name_set name = (\<lambda>(h, self).
     case setattr h (item self) ''name'' name of
       Inl e \<Rightarrow> (Some e, (h, self))
     | Inr h' \<Rightarrow> (None, (h', self)))"

text \<open>
  \<^verbatim>\<open>__init__\<close>: the four private attributes start as \<^verbatim>\<open>None\<close>; then the scene, the
  item, the name (through the property, so on the item) and the visibility are assigned,
  in this order. If the assignment of the name raises, no object is returned.
\<close>

definition BaseObject_init ::
  "pyval \<Rightarrow> pyval \<Rightarrow> pyval \<Rightarrow> pyval \<Rightarrow> heap \<Rightarrow> (error + BaseObject) \<times> heap" where
  "BaseObject_init item0 scene0 name0 visible0 h =
     (let self0 = \<lparr>priv_item = PyNone, priv_uuid = PyNone, priv_scene = PyNone, priv_artist = PyNone,
                   visible = PyNone\<rparr>;
          self1 = self0\<lparr>priv_scene := scene0\<rparr>;
          self2 = self1\<lparr>priv_item := item0\<rparr>
      in case name_set name0 (h, self2) of
           (Some e, (h', _)) \<Rightarrow> (Inl e, h')
         | (None, (h', self3)) \<Rightarrow> (Inr (self3\<lparr>visible := visible0\<rparr>), h'))"

text \<open>
  A handler type is called with the item and the keyword arguments; it returns a new
  object or raises, and may change the heap.
\<close>

type_synonym kwargs = "(string \<times> pyval) list"

type_synonym 'o handler = "pyval \<Rightarrow> kwargs \<Rightarrow> heap \<Rightarrow> (error + 'o) \<times> heap"

definition kwarg :: "kwargs \<Rightarrow> string \<Rightarrow> pyval \<Rightarrow> pyval" where
  "kwarg kw k dflt = (case map_of kw k of None \<Rightarrow> dflt | Some v \<Rightarrow> v)"

text \<open>
  Calling the class \<^verbatim>\<open>BaseObject\<close> itself: the keywords \<^verbatim>\<open>scene\<close>, \<^verbatim>\<open>name\<close> and
  \<^verbatim>\<open>visible\<close> are bound with their defaults, any other keyword is a \<^verbatim>\<open>TypeError\<close>.
\<close>

definition BaseObject_new :: "BaseObject handler" where
  "BaseObject_new item0 kw h =
     (if \<exists>k \<in> set (map fst kw). k \<notin> {''scene'', ''name'', ''visible''} then (Inl TypeError, h)
      else BaseObject_init item0 (kwarg kw ''scene'' PyNone) (kwarg kw ''name'' PyNone)
             (kwarg kw ''visible'' (PyBool True)) h)"

text \<open>
  The registry \<^verbatim>\<open>_ITEM_OBJECT\<close> is a dictionary from item types to handler types. It is
  module state, so \<^verbatim>\<open>register\<close> returns the updated dictionary.
\<close>

definition register :: "(pyclass \<rightharpoonup> 'o handler) \<Rightarrow> pyclass \<Rightarrow> 'o handler \<Rightarrow> (pyclass \<rightharpoonup> 'o handler)" where
  "register ITEM_OBJECT item_type object_type = ITEM_OBJECT(item_type \<mapsto> object_type)"

definition build :: "(pyclass \<rightharpoonup> 'o handler) \<Rightarrow> pyval \<Rightarrow> kwargs \<Rightarrow> heap \<Rightarrow> (error + 'o) \<times> heap" where
  "build ITEM_OBJECT item0 kw h =
     (case ITEM_OBJECT (type_of h item0) of
        None \<Rightarrow> (Inl KeyError, h)
      | Some object_type \<Rightarrow> object_type item0 kw h)"

section \<open>compas\_rhino/objects/\_shapeobject.py\<close>

text \<open>
  The host application and the geometry library are outside the repository's sources.
  What \<^verbatim>\<open>ShapeObject\<close> calls of them is a parameter of the model:
  \<^item> \<^verbatim>\<open>Transform.Multiply\<close>, the product of two host transforms (type \<open>'x\<close>);
  \<^item> \<^verbatim>\<open>T[i, j]\<close>, an entry of a host transform;
  \<^item> \<^verbatim>\<open>obj.Geometry.Transform(matrix)\<close> on a geometry of the document (type \<open>'g\<close>);
  \<^item> \<^verbatim>\<open>xform_from_transformation\<close>, which builds a host transform or raises;
  \<^item> \<^verbatim>\<open>Transformation()\<close>, a fresh transformation of the library (type \<open>'t\<close>), and
    \<^verbatim>\<open>M[i, j] = v\<close> on it;
  \<^item> \<^verbatim>\<open>shape.transform(M)\<close> on a shape (type \<open>'s\<close>).
\<close>

record ('x, 'g, 't, 's, 'e) host =
  Multiply :: "'x \<Rightarrow> 'x \<Rightarrow> 'x"
  Transform_getitem :: "'x \<Rightarrow> nat \<Rightarrow> nat \<Rightarrow> 'e"
  Geometry_Transform :: "'g \<Rightarrow> 'x \<Rightarrow> 'g"
  xform_from_transformation :: "'t \<Rightarrow> error + 'x"
  Transformation_new :: "'t"
  Transformation_setitem :: "'t \<Rightarrow> nat \<Rightarrow> nat \<Rightarrow> 'e \<Rightarrow> 't"
  shape_transform :: "'s \<Rightarrow> 't \<Rightarrow> 's"

text \<open>
  The attribute \<^verbatim>\<open>_stack\<close> holds a \<^verbatim>\<open>collections.deque\<close> or a plain list; both are
  sequences, only the deque has \<^verbatim>\<open>appendleft\<close>.
\<close>

datatype 'x container = Deque "'x list" | PyList "'x list"

fun elems :: "'x container \<Rightarrow> 'x list" where
  "elems (Deque xs) = xs"
| "elems (PyList xs) = xs"

fun appendleft :: "'x container \<Rightarrow> 'x \<Rightarrow> error + 'x container" where
  "appendleft (Deque xs) x = Inr (Deque (x # xs))"
| "appendleft (PyList xs) x = Inl AttributeError"

text \<open>
  \<^verbatim>\<open>functools.reduce(f, seq)\<close> without an initial value: \<^verbatim>\<open>TypeError\<close> on an empty
  sequence, otherwise \<open>f\<close> folded from the left, starting with the first element.
\<close>

fun reduce :: "('x \<Rightarrow> 'x \<Rightarrow> 'x) \<Rightarrow> 'x list \<Rightarrow> error + 'x" where
  "reduce f [] = Inl TypeError"
| "reduce f (x # xs) = Inr (foldl f x xs)"

text \<open>
  The shape (\<^verbatim>\<open>self.item\<close>) and the attributes \<^verbatim>\<open>_guid\<close>, \<^verbatim>\<open>_matrix\<close> and \<^verbatim>\<open>_stack\<close>.
  \<^verbatim>\<open>None\<close> is the absent value of \<^verbatim>\<open>_guid\<close> and \<^verbatim>\<open>_matrix\<close>. The document of the host,
  \<^verbatim>\<open>sc.doc.Objects\<close>, maps the identifiers of its objects to their geometry.
\<close>

record ('x, 's) ShapeObject =
  shape :: 's
  priv_guid :: "nat option"
  priv_matrix :: "'x option"
  priv_stack :: "'x container"

type_synonym 'g document = "nat \<rightharpoonup> 'g"

text \<open>The state of \<^verbatim>\<open>__init__\<close> that the methods below read.\<close>

definition ShapeObject_init :: "'s \<Rightarrow> ('x, 's) ShapeObject" where
  "ShapeObject_init shape0 =
     \<lparr>shape = shape0, priv_guid = None, priv_matrix = None, priv_stack = Deque []\<rparr>"

definition matrix :: "('x, 's) ShapeObject \<Rightarrow> 'x option" where
  "matrix self = priv_matrix self"

definition matrix_set ::
  "('x, 'g, 't, 's, 'e) host \<Rightarrow> 't \<Rightarrow> 'g document \<times> ('x, 's) ShapeObject
     \<Rightarrow> ('g document \<times> ('x, 's) ShapeObject) outcome" where
  "matrix_set H transformation = (\<lambda>(doc, self).
     case xform_from_transformation H transformation of
       Inl e \<Rightarrow> (Some e, (doc, self))
     | Inr X \<Rightarrow> (None, (doc, self\<lparr>priv_matrix := Some X\<rparr>)))"

text \<open>\<^verbatim>\<open>sc.doc.Objects.Find\<close> returns \<^verbatim>\<open>None\<close> when the document has no such object.\<close>

definition Find :: "'g document \<Rightarrow> nat option \<Rightarrow> (nat \<times> 'g) option" where
  "Find doc guid = (case guid of None \<Rightarrow> None
                    | Some k \<Rightarrow> (case doc k of None \<Rightarrow> None | Some geo \<Rightarrow> Some (k, geo)))"

text \<open>
  \<^verbatim>\<open>update\<close>: a host transform is true in \<^verbatim>\<open>if self.matrix\<close>, \<^verbatim>\<open>None\<close> is false. The
  matrix is pushed before the object is looked up, so the push stays if the lookup
  fails with \<^verbatim>\<open>AttributeError\<close> on \<^verbatim>\<open>None.Geometry\<close>.
\<close>

definition update ::
  "('x, 'g, 't, 's, 'e) host \<Rightarrow> 'g document \<times> ('x, 's) ShapeObject
     \<Rightarrow> ('g document \<times> ('x, 's) ShapeObject) outcome" where
  "update H = (\<lambda>(doc, self).
     case matrix self of
       None \<Rightarrow> (None, (doc, self))
     | Some m \<Rightarrow>
        (case appendleft (priv_stack self) m of
           Inl e \<Rightarrow> (Some e, (doc, self))
         | Inr stack' \<Rightarrow>
            (let self' = self\<lparr>priv_stack := stack'\<rparr> in
             case Find doc (priv_guid self') of
               None \<Rightarrow> (Some AttributeError, (doc, self'))
             | Some (k, geo) \<Rightarrow> (None, (doc(k \<mapsto> Geometry_Transform H geo m), self')))))"

text \<open>The two nested loops of \<^verbatim>\<open>synchronize\<close> that copy \<open>T\<close> into \<open>M\<close>.\<close>

definition copy_entries :: "('x, 'g, 't, 's, 'e) host \<Rightarrow> 'x \<Rightarrow> 't \<Rightarrow> 't" where
  "copy_entries H T M0 =
     fold (\<lambda>i M. fold (\<lambda>j M'. Transformation_setitem H M' i j (Transform_getitem H T i j))
                    [0..<4] M)
          [0..<4] M0"

definition synchronize ::
  "('x, 'g, 't, 's, 'e) host \<Rightarrow> 'g document \<times> ('x, 's) ShapeObject
     \<Rightarrow> ('g document \<times> ('x, 's) ShapeObject) outcome" where
  "synchronize H = (\<lambda>(doc, self).
     case reduce (Multiply H) (elems (priv_stack self)) of
       Inl e \<Rightarrow> (Some e, (doc, self))
     | Inr T \<Rightarrow>
        (let M = copy_entries H T (Transformation_new H) in
         (None, (doc, self\<lparr>shape := shape_transform H (shape self) M,
                            priv_stack := PyList []\<rparr>))))"

text \<open>
  The states an object can be in: freshly constructed, and then after any call of the
  \<^verbatim>\<open>matrix\<close> setter, \<^verbatim>\<open>update\<close> or \<^verbatim>\<open>synchronize\<close>, whether the call returned or
  raised, against any document. \<^verbatim>\<open>draw\<close> and \<^verbatim>\<open>clear\<close> assign \<^verbatim>\<open>_guid\<close> and the
  \<^verbatim>\<open>shape\<close> setter assigns the shape; they touch neither the matrix nor the stack.
\<close>

inductive reachable :: "('x, 'g, 't, 's, 'e) host \<Rightarrow> ('x, 's) ShapeObject \<Rightarrow> bool"
  for H :: "('x, 'g, 't, 's, 'e) host" where
  init: "reachable H (ShapeObject_init shape0)"
| set_matrix: "reachable H self \<Longrightarrow> reachable H (snd (snd (matrix_set H transformation (doc, self))))"
| set_shape: "reachable H self \<Longrightarrow> reachable H (self\<lparr>shape := shape0\<rparr>)"
| set_guid: "reachable H self \<Longrightarrow> reachable H (self\<lparr>priv_guid := guid0\<rparr>)"
| updated: "reachable H self \<Longrightarrow> reachable H (snd (snd (update H (doc, self))))"
| synchronized: "reachable H self \<Longrightarrow> reachable H (snd (snd (synchronize H (doc, self))))"

section \<open>Example instances\<close>

text \<open>
  Concrete instances of the parameters, on which the definitions above are evaluated.

  A stand-in for \<^verbatim>\<open>colorsys\<close> whose first conversion raises \<^verbatim>\<open>ZeroDivisionError\<close> on
  black, as the division in the library does, and never \<^verbatim>\<open>ValueError\<close>.
\<close>

definition example_colorsys :: colorsys where
  "example_colorsys =
     \<lparr>rgb_to_hls = (\<lambda>x y z. if x + y + z = 0 then Inl ZeroDivisionError else Inr (x, y, z)),
      hls_to_rgb = (\<lambda>x y z. Inr (x, y, z))\<rparr>"

text \<open>
  Two item classes, \<^verbatim>\<open>Cone\<close> deriving from \<^verbatim>\<open>Shape\<close>, and a heap with a cone named
  \<^verbatim>\<open>cone\<close> at address 0 and plain shapes without attributes everywhere else.
\<close>

definition Shape_class :: pyclass where
  "Shape_class = PyClass ''Shape'' [object_class]"

definition Cone_class :: pyclass where
  "Cone_class = PyClass ''Cone'' [Shape_class]"

definition example_heap :: heap where
  "example_heap = (\<lambda>p. if p = 0 then \<lparr>obj_type = Cone_class, obj_attrs = [''name'' \<mapsto> PyStr ''cone'']\<rparr>
                       else \<lparr>obj_type = Shape_class, obj_attrs = Map.empty\<rparr>)"

text \<open>A scene object wrapping the cone at address 0.\<close>

definition example_object :: BaseObject where
  "example_object = \<lparr>priv_item = PyRef 0, priv_uuid = PyNone, priv_scene = PyNone,
                     priv_artist = PyNone, visible = PyBool True\<rparr>"

text \<open>
  A host in which transforms, geometries and shapes are integers: the product of
  transforms is multiplication, a transform \<open>X\<close> has \<open>X\<close> on its diagonal and 0 elsewhere,
  and transforming a geometry or a shape multiplies it by the transform.
\<close>

definition example_host :: "(int, int, nat \<times> nat \<Rightarrow> int, int, int) host" where
  "example_host =
     \<lparr>Multiply = (\<lambda>X Y. X * Y),
      Transform_getitem = (\<lambda>X i j. if i = j then X else 0),
      Geometry_Transform = (\<lambda>geo X. X * geo),
      xform_from_transformation = (\<lambda>M. Inr (M (0, 0))),
      Transformation_new = (\<lambda>(i, j). if i = j then 1 else 0),
      Transformation_setitem = (\<lambda>M i j v. M((i, j) := v)),
      shape_transform = (\<lambda>s M. M (0, 0) * s)\<rparr>"

section \<open>Properties of the colour class\<close>

text \<open>
  Claim C6. For every colour \<open>c\<close>, \<^verbatim>\<open>Color.from_data(c.data)\<close> returns a colour whose red,
  green, blue and alpha components are those of \<open>c\<close>.
\<close>

theorem from_data_roundtrip:
  "\<exists>c'. from_data (data c) = Inr c' \<and> r c' = r c \<and> g c' = g c \<and> b c' = b c \<and> a c' = a c"
  by (simp add: from_data_def data_def getitem_def Color_init_def)

text \<open>
  Claim C8. Equality of two colours is the equality of their red, green and blue
  components; in particular two colours that differ only in alpha are equal. The length
  of a colour is 3, and iterating over it yields red, green and blue, never alpha.
\<close>

theorem Color_eq_ignores_alpha:
  "Color_eq c1 c2 = (r c1 = r c2 \<and> g c1 = g c2 \<and> b c1 = b c2)
   \<and> Color_eq (c1\<lparr>a := x\<rparr>) (c1\<lparr>a := y\<rparr>)
   \<and> Color_len c1 = 3
   \<and> Color_iter c1 = [r c1, g c1, b c1]"
  by (simp add: Color_eq_def Color_iter_def rgb_def Color_len_def)

text \<open>
  Claim C9. \<^verbatim>\<open>lighten\<close>, \<^verbatim>\<open>darken\<close> and \<^verbatim>\<open>desaturate\<close> each raise \<^verbatim>\<open>ValueError\<close>
  exactly when the factor is below 0 or above 100, and whenever one of them raises, the
  colour is left as it was. The conversions of \<^verbatim>\<open>colorsys\<close> are assumed not to raise
  \<^verbatim>\<open>ValueError\<close> themselves.
\<close>

theorem adjust_ValueError:
  assumes "\<forall>x y z. rgb_to_hls cs x y z \<noteq> Inl ValueError"
      and "\<forall>x y z. hls_to_rgb cs x y z \<noteq> Inl ValueError"
  shows "((fst (lighten cs f c) = Some ValueError) = (f < 0 \<or> 100 < f))
       \<and> ((fst (darken cs f c) = Some ValueError) = (f < 0 \<or> 100 < f))
       \<and> ((fst (desaturate cs f c) = Some ValueError) = (f < 0 \<or> 100 < f))
       \<and> (raised (lighten cs f c) \<longrightarrow> snd (lighten cs f c) = c)
       \<and> (raised (darken cs f c) \<longrightarrow> snd (darken cs f c) = c)
       \<and> (raised (desaturate cs f c) \<longrightarrow> snd (desaturate cs f c) = c)"
  using assms
  by (auto simp: lighten_def darken_def desaturate_def hls_def raised_def Let_def
           split: sum.splits prod.splits)

text \<open>The statement evaluated on red, with the factors 150, -1 and 50.\<close>

theorem adjust_ValueError_witness:
  "fst (lighten example_colorsys 150 (Color_init 1 0 0 1)) = Some ValueError
   \<and> snd (lighten example_colorsys 150 (Color_init 1 0 0 1)) = Color_init 1 0 0 1
   \<and> fst (darken example_colorsys (- 1) (Color_init 1 0 0 1)) = Some ValueError
   \<and> fst (desaturate example_colorsys 50 (Color_init 1 0 0 1)) \<noteq> Some ValueError"
  using adjust_ValueError [of example_colorsys 150 "Color_init 1 0 0 1"]
        adjust_ValueError [of example_colorsys "- 1" "Color_init 1 0 0 1"]
        adjust_ValueError [of example_colorsys 50 "Color_init 1 0 0 1"]
  by (simp add: example_colorsys_def raised_def)

section \<open>Properties of the bounding boxes\<close>

lemma zip_star_Nil: "ps = [] \<or> [] \<in> set ps \<Longrightarrow> zip_star ps = []"
  by (subst zip_star.simps) simp

lemma zip_star_Cons:
  "ps \<noteq> [] \<Longrightarrow> [] \<notin> set ps \<Longrightarrow> zip_star ps = map hd ps # zip_star (map tl ps)"
  by (subst zip_star.simps) simp

text \<open>On points that all have \<open>n\<close> coordinates, \<^verbatim>\<open>zip(*points)\<close> is the transposition.\<close>

lemma zip_star_uniform:
  "ps \<noteq> [] \<Longrightarrow> \<forall>p \<in> set ps. length p = n \<Longrightarrow>
     zip_star ps = map (\<lambda>i. map (\<lambda>p. p ! i) ps) [0..<n]"
proof (induction n arbitrary: ps)
  case 0
  then have "[] \<in> set ps" by (cases ps) auto
  then show ?case by (simp add: zip_star_Nil)
next
  case (Suc n)
  have ne: "[] \<notin> set ps" using Suc.prems by auto
  have tl_len: "\<forall>p \<in> set (map tl ps). length p = n" using Suc.prems by auto
  have "zip_star (map tl ps) = map (\<lambda>i. map (\<lambda>p. p ! i) (map tl ps)) [0..<n]"
    using Suc.IH [of "map tl ps"] Suc.prems(1) tl_len by simp
  also have "\<dots> = map (\<lambda>i. map (\<lambda>p. p ! Suc i) ps) [0..<n]"
    using Suc.prems(2) by (auto simp: nth_tl)
  finally have rest: "zip_star (map tl ps) = map (\<lambda>i. map (\<lambda>p. p ! Suc i) ps) [0..<n]" .
  have first: "map hd ps = map (\<lambda>p. p ! 0) ps"
  proof (rule map_cong [OF refl])
    fix p assume "p \<in> set ps"
    then have "p \<noteq> []" using ne by auto
    then show "hd p = p ! 0" by (simp add: hd_conv_nth)
  qed
  have "[0..<Suc n] = 0 # map Suc [0..<n]"
    by (simp add: upt_conv_Cons map_Suc_upt del: upt_Suc)
  then show ?case
    using zip_star_Cons [OF Suc.prems(1) ne] rest first by (simp add: comp_def del: upt_Suc)
qed

lemma zip_star_3d:
  assumes "points \<noteq> []" and "\<forall>p \<in> set points. length p = 3"
  shows "zip_star points =
           [map (\<lambda>p. p ! 0) points, map (\<lambda>p. p ! 1) points, map (\<lambda>p. p ! 2) points]"
proof -
  have "[0..<3] = [0, 1, 2]" by (simp add: upt_rec)
  then show ?thesis using zip_star_uniform [OF assms] by simp
qed

lemma py_min_map:
  "points \<noteq> [] \<Longrightarrow> py_min (map f points) = Inr (Min (f ` set points))"
  by (cases points) (simp_all add: py_min_def Min.set_eq_fold [symmetric])

lemma py_max_map:
  "points \<noteq> [] \<Longrightarrow> py_max (map f points) = Inr (Max (f ` set points))"
  by (cases points) (simp_all add: py_max_def Max.set_eq_fold [symmetric])

lemma bounding_box_value:
  assumes "points \<noteq> []" and "\<forall>p \<in> set points. length p = 3"
  shows "bounding_box points =
     (let lo = (\<lambda>i. Min ((\<lambda>p. p ! i) ` set points));
          hi = (\<lambda>i. Max ((\<lambda>p. p ! i) ` set points))
      in Inr [[lo 0, lo 1, lo 2], [hi 0, lo 1, lo 2], [hi 0, hi 1, lo 2], [lo 0, hi 1, lo 2],
              [lo 0, lo 1, hi 2], [hi 0, lo 1, hi 2], [hi 0, hi 1, hi 2], [lo 0, hi 1, hi 2]])"
  by (simp add: bounding_box_def zip_star_3d [OF assms] py_min_map [OF assms(1)]
        py_max_map [OF assms(1)] sbind_def Let_def)

text \<open>
  Claim C4. For a non-empty list of points with three coordinates each,
  \<^verbatim>\<open>bounding_box\<close> returns the eight corners built from the least and the greatest
  x, y and z of the input, in the order (min,min,min), (max,min,min), (max,max,min),
  (min,max,min), (min,min,max), (max,min,max), (max,max,max), (min,max,max); and every
  input point lies between the least and the greatest value in each coordinate. The
  function reads its argument and writes nothing, so the input list is the same after
  the call.
\<close>

theorem bounding_box_correct:
  assumes "points \<noteq> []" and "\<forall>p \<in> set points. length p = 3"
  shows
    "(let lo = (\<lambda>i. Min ((\<lambda>p. p ! i) ` set points));
          hi = (\<lambda>i. Max ((\<lambda>p. p ! i) ` set points))
      in bounding_box points =
           Inr [[lo 0, lo 1, lo 2], [hi 0, lo 1, lo 2], [hi 0, hi 1, lo 2], [lo 0, hi 1, lo 2],
                [lo 0, lo 1, hi 2], [hi 0, lo 1, hi 2], [hi 0, hi 1, hi 2], [lo 0, hi 1, hi 2]]
         \<and> (\<forall>p \<in> set points. \<forall>i < 3. lo i \<le> p ! i \<and> p ! i \<le> hi i))"
proof -
  have "\<forall>p \<in> set points. \<forall>i. Min ((\<lambda>p. p ! i) ` set points) \<le> p ! i
                              \<and> p ! i \<le> Max ((\<lambda>p. p ! i) ` set points)"
    by simp
  then show ?thesis
    using bounding_box_value [OF assms] by (simp add: Let_def)
qed

text \<open>The box of three points, computed.\<close>

theorem bounding_box_correct_witness:
  "bounding_box [[0, 0, 0], [1, 2, 3], [- 1, 5, 2]] =
     Inr [[- 1, 0, 0], [1, 0, 0], [1, 5, 0], [- 1, 5, 0],
          [- 1, 0, 3], [1, 0, 3], [1, 5, 3], [- 1, 5, 3]]"
  using bounding_box_correct [of "[[0, 0, 0], [1, 2, 3], [- 1, 5, 2]]"]
  by (simp add: Let_def)

text \<open>
  Claim C5. Two non-empty lists of three-dimensional points that agree, point by point,
  in x and y give the same result of \<^verbatim>\<open>bounding_box_xy\<close>, whatever their z
  coordinates; the result has four corners, each with third coordinate 0.0.
\<close>

theorem bounding_box_xy_ignores_z:
  assumes "ps1 \<noteq> []"
      and "\<forall>p \<in> set ps1. length p = 3" and "\<forall>p \<in> set ps2. length p = 3"
      and "length ps1 = length ps2"
      and "\<forall>i < length ps1. ps1 ! i ! 0 = ps2 ! i ! 0 \<and> ps1 ! i ! 1 = ps2 ! i ! 1"
  shows "\<exists>box. bounding_box_xy ps1 = Inr box \<and> bounding_box_xy ps2 = Inr box
           \<and> length box = 4 \<and> (\<forall>c \<in> set box. length c = 3 \<and> c ! 2 = 0.0)"
proof -
  have ne2: "ps2 \<noteq> []" using assms(1,4) by auto
  have x: "map (\<lambda>p. p ! 0) ps1 = map (\<lambda>p. p ! 0) ps2"
    using assms(4,5) by (auto intro: nth_equalityI)
  have y: "map (\<lambda>p. p ! 1) ps1 = map (\<lambda>p. p ! 1) ps2"
    using assms(4,5) by (auto intro: nth_equalityI)
  have s1: "islice (zip_star ps1) 2 = [map (\<lambda>p. p ! 0) ps1, map (\<lambda>p. p ! 1) ps1]"
    by (simp add: islice_def zip_star_3d [OF assms(1,2)] numeral_2_eq_2)
  have s2: "islice (zip_star ps2) 2 = [map (\<lambda>p. p ! 0) ps1, map (\<lambda>p. p ! 1) ps1]"
    unfolding x y by (simp add: islice_def zip_star_3d [OF ne2 assms(3)] numeral_2_eq_2)
  show ?thesis
    by (simp add: bounding_box_xy_def s1 s2 py_min_map [OF assms(1)] py_max_map [OF assms(1)]
          sbind_def)
qed

text \<open>Two lists of two points that differ only in z.\<close>

theorem bounding_box_xy_ignores_z_witness:
  "bounding_box_xy [[0, 0, 7], [1, 2, 9]] = bounding_box_xy [[0, 0, - 3], [1, 2, 4]]
   \<and> (\<exists>box. bounding_box_xy [[0, 0, 7], [1, 2, 9]] = Inr box \<and> length box = 4)"
proof -
  have "\<forall>i < length [[0, 0, 7], [1, 2, 9 :: real]].
          [[0, 0, 7], [1, 2, 9]] ! i ! 0 = [[0, 0, - 3], [1, 2, 4 :: real]] ! i ! 0
        \<and> [[0, 0, 7], [1, 2, 9]] ! i ! 1 = [[0, 0, - 3], [1, 2, 4 :: real]] ! i ! 1"
    by (simp add: nth_Cons' less_Suc_eq)
  from bounding_box_xy_ignores_z [OF _ _ _ _ this]
  show ?thesis by auto
qed

section \<open>Properties of the scene objects\<close>

text \<open>Constructing a \<^verbatim>\<open>BaseObject\<close> on a heap object writes the name onto that object.\<close>

lemma BaseObject_init_ref:
  "BaseObject_init (PyRef p) sc nm vis h =
     (Inr \<lparr>priv_item = PyRef p, priv_uuid = PyNone, priv_scene = sc, priv_artist = PyNone,
           visible = vis\<rparr>,
      h(p := (h p)\<lparr>obj_attrs := (obj_attrs (h p))(''name'' \<mapsto> nm)\<rparr>))"
  by (simp add: BaseObject_init_def name_set_def setattr_def item_def Let_def)

lemma BaseObject_new_ref:
  assumes "set (map fst kw) \<subseteq> {''scene'', ''name'', ''visible''}"
  shows "BaseObject_new (PyRef p) kw h =
     (Inr \<lparr>priv_item = PyRef p, priv_uuid = PyNone, priv_scene = kwarg kw ''scene'' PyNone,
           priv_artist = PyNone, visible = kwarg kw ''visible'' (PyBool True)\<rparr>,
      h(p := (h p)\<lparr>obj_attrs := (obj_attrs (h p))(''name'' \<mapsto> kwarg kw ''name'' PyNone)\<rparr>))"
proof -
  have "\<not> (\<exists>k \<in> set (map fst kw). k \<notin> {''scene'', ''name'', ''visible''})"
    using assms by blast
  then show ?thesis
    unfolding BaseObject_new_def by (simp only: if_False BaseObject_init_ref)
qed

text \<open>
  Claim C1. After \<^verbatim>\<open>register(T, O)\<close>, \<^verbatim>\<open>build\<close> on an item whose type is exactly \<open>T\<close>
  is the call of \<open>O\<close> with that item and the keyword arguments; after two registrations
  of \<open>T\<close> it is the call of the later handler. With \<^verbatim>\<open>BaseObject\<close> itself as the
  handler and an item on the heap, the call returns an object whose item is the given
  item and whose scene, visibility and name are the keyword arguments or their defaults.
\<close>

theorem build_registered:
  assumes "type_of h it = T"
  shows "build (register reg T Hd) it kw h = Hd it kw h
       \<and> build (register (register reg T Hd_old) T Hd_new) it kw h = Hd_new it kw h
       \<and> (\<forall>p. it = PyRef p \<and> set (map fst kw) \<subseteq> {''scene'', ''name'', ''visible''} \<longrightarrow>
            (\<exists>obj h'. build (register reg' T BaseObject_new) it kw h = (Inr obj, h')
                \<and> item obj = it
                \<and> scene obj = kwarg kw ''scene'' PyNone
                \<and> visible obj = kwarg kw ''visible'' (PyBool True)
                \<and> name_get (h', obj) = Inr (kwarg kw ''name'' PyNone)))"
proof (intro conjI allI impI)
  show "build (register reg T Hd) it kw h = Hd it kw h"
    using assms by (simp add: build_def register_def)
  show "build (register (register reg T Hd_old) T Hd_new) it kw h = Hd_new it kw h"
    using assms by (simp add: build_def register_def)
next
  fix p
  assume a: "it = PyRef p \<and> set (map fst kw) \<subseteq> {''scene'', ''name'', ''visible''}"
  then have b: "build (register reg' T BaseObject_new) it kw h = BaseObject_new (PyRef p) kw h"
    using assms by (simp add: build_def register_def)
  show "\<exists>obj h'. build (register reg' T BaseObject_new) it kw h = (Inr obj, h')
                \<and> item obj = it
                \<and> scene obj = kwarg kw ''scene'' PyNone
                \<and> visible obj = kwarg kw ''visible'' (PyBool True)
                \<and> name_get (h', obj) = Inr (kwarg kw ''name'' PyNone)"
    unfolding b using a
    by (simp add: BaseObject_new_ref item_def scene_def name_get_def getattr_def)
qed

text \<open>The cone at address 0, built with \<^verbatim>\<open>visible=False\<close>.\<close>

theorem build_registered_witness:
  "(\<exists>obj h'. build (register Map.empty Cone_class BaseObject_new) (PyRef 0)
               [(''visible'', PyBool False)] example_heap = (Inr obj, h')
       \<and> item obj = PyRef 0 \<and> visible obj = PyBool False)"
proof -
  have t: "type_of example_heap (PyRef 0) = Cone_class"
    by (simp add: type_of_def example_heap_def)
  show ?thesis
    using build_registered [OF t, where kw = "[(''visible'', PyBool False)]"
             and reg = "Map.empty :: pyclass \<rightharpoonup> BaseObject handler"
             and Hd = BaseObject_new and Hd_old = BaseObject_new and Hd_new = BaseObject_new
             and reg' = Map.empty, THEN conjunct2, THEN conjunct2]
    by (auto simp: kwarg_def)
qed

text \<open>
  Claim C3. Provided that every registered handler returns an object when called,
  \<^verbatim>\<open>build\<close> returns an object exactly when the type of the item itself is a key of the
  registry. Otherwise it raises \<^verbatim>\<open>KeyError\<close> and leaves the heap as it was, also when
  the type of the item is a subclass of a registered type.
\<close>

theorem build_exact_type:
  assumes "\<forall>T Hd. reg T = Some Hd \<longrightarrow> (\<exists>obj h'. Hd it kw h = (Inr obj, h'))"
  shows "((\<exists>obj h'. build reg it kw h = (Inr obj, h')) = (reg (type_of h it) \<noteq> None))
       \<and> (reg (type_of h it) = None \<longrightarrow> build reg it kw h = (Inl KeyError, h))
       \<and> (\<forall>T. issubclass (type_of h it) T \<and> reg T \<noteq> None \<and> reg (type_of h it) = None \<longrightarrow>
             build reg it kw h = (Inl KeyError, h))"
proof (cases "reg (type_of h it)")
  case None
  then show ?thesis by (simp add: build_def)
next
  case (Some Hd)
  then have "build reg it kw h = Hd it kw h" by (simp add: build_def)
  moreover have "\<exists>obj h'. Hd it kw h = (Inr obj, h')" using assms Some by blast
  ultimately show ?thesis using Some by simp
qed

text \<open>
  With only \<^verbatim>\<open>Shape\<close> registered, building the cone raises \<^verbatim>\<open>KeyError\<close> although
  \<^verbatim>\<open>Cone\<close> is a subclass of \<^verbatim>\<open>Shape\<close>, and building a plain shape returns an object.
\<close>

theorem build_exact_type_witness:
  "build [Shape_class \<mapsto> BaseObject_new] (PyRef 0) [] example_heap = (Inl KeyError, example_heap)
   \<and> issubclass (type_of example_heap (PyRef 0)) Shape_class
   \<and> (\<exists>obj h'. build [Shape_class \<mapsto> BaseObject_new] (PyRef 2) [] example_heap = (Inr obj, h'))"
proof -
  define reg where "reg = [Shape_class \<mapsto> BaseObject_new]"
  have ne: "Cone_class \<noteq> Shape_class"
    by (simp add: Cone_class_def Shape_class_def)
  have none: "reg Cone_class = None" and some: "reg Shape_class \<noteq> None"
    using ne by (simp_all add: reg_def)
  have t0: "type_of example_heap (PyRef 0) = Cone_class"
    and t2: "type_of example_heap (PyRef 2) = Shape_class"
    by (simp_all add: type_of_def example_heap_def)
  have sub: "issubclass Cone_class Shape_class"
    by (simp add: Cone_class_def Shape_class_def)
  have h0: "\<forall>T Hd. reg T = Some Hd \<longrightarrow> (\<exists>obj h'. Hd (PyRef 0) [] example_heap = (Inr obj, h'))"
    by (auto simp: reg_def BaseObject_new_ref split: if_splits)
  have h2: "\<forall>T Hd. reg T = Some Hd \<longrightarrow> (\<exists>obj h'. Hd (PyRef 2) [] example_heap = (Inr obj, h'))"
    by (auto simp: reg_def BaseObject_new_ref split: if_splits)
  have k0: "build reg (PyRef 0) [] example_heap = (Inl KeyError, example_heap)"
    using build_exact_type [OF h0] none by (simp add: t0)
  have k2: "\<exists>obj h'. build reg (PyRef 2) [] example_heap = (Inr obj, h')"
    using build_exact_type [OF h2] some by (simp add: t2)
  show ?thesis
    using k0 k2 sub unfolding reg_def t0 by blast
qed

text \<open>
  Claim C7. For a scene object whose item is a heap object, reading \<^verbatim>\<open>name\<close> reads the
  attribute \<^verbatim>\<open>name\<close> of the item, and assigning \<^verbatim>\<open>name\<close> returns without raising,
  leaves the scene object (its item, scene and visibility) as it was, and changes on the
  heap nothing but the attribute \<^verbatim>\<open>name\<close> of the item, which then reads as the value
  assigned, through the item and through the scene object alike.
\<close>

theorem name_alias:
  assumes "item self = PyRef p"
  shows "name_get (h, self) = getattr h (PyRef p) ''name''
       \<and> (\<exists>h'. name_set n (h, self) = (None, (h', self))
              \<and> getattr h' (PyRef p) ''name'' = Inr n
              \<and> name_get (h', self) = Inr n
              \<and> obj_type (h' p) = obj_type (h p)
              \<and> (\<forall>k. k \<noteq> ''name'' \<longrightarrow> obj_attrs (h' p) k = obj_attrs (h p) k)
              \<and> (\<forall>q. q \<noteq> p \<longrightarrow> h' q = h q))"
  using assms by (simp add: name_get_def name_set_def setattr_def getattr_def)

text \<open>Renaming the cone through its scene object.\<close>

theorem name_alias_witness:
  "name_get (example_heap, example_object) = Inr (PyStr ''cone'')
   \<and> (\<exists>h'. name_set (PyStr ''c2'') (example_heap, example_object) = (None, (h', example_object))
          \<and> name_get (h', example_object) = Inr (PyStr ''c2'')
          \<and> h' 1 = example_heap 1)"
proof -
  have i: "item example_object = PyRef 0"
    by (simp add: item_def example_object_def)
  have g: "getattr example_heap (PyRef 0) ''name'' = Inr (PyStr ''cone'')"
    by (simp add: getattr_def example_heap_def)
  show ?thesis
    using name_alias [OF i, of example_heap "PyStr ''c2''"] g by auto
qed

section \<open>Properties of the shape objects\<close>

text \<open>
  In every state an object can be in, the stack is the empty deque as long as no matrix
  has been assigned.
\<close>

lemma reachable_matrix_stack:
  "reachable H self \<Longrightarrow> matrix self = None \<longrightarrow> priv_stack self = Deque []"
proof (induction rule: reachable.induct)
  case (init shape0)
  then show ?case by (simp add: ShapeObject_init_def matrix_def)
next
  case (set_matrix self transformation doc)
  then show ?case by (simp add: matrix_set_def matrix_def split: sum.splits)
next
  case (set_shape self shape0)
  then show ?case by (simp add: matrix_def)
next
  case (set_guid self guid0)
  then show ?case by (simp add: matrix_def)
next
  case (updated self doc)
  then show ?case
    by (auto simp: update_def matrix_def Let_def split: option.splits sum.splits prod.splits)
next
  case (synchronized self doc)
  then show ?case
    by (auto simp: synchronize_def matrix_def Let_def split: sum.splits)
qed

lemma synchronize_empty:
  "elems (priv_stack self) = [] \<Longrightarrow> synchronize H (doc, self) = (Some TypeError, (doc, self))"
  by (simp add: synchronize_def)

lemma synchronize_nonempty:
  "elems (priv_stack self) = x # xs \<Longrightarrow>
     synchronize H (doc, self) =
       (None, (doc, self\<lparr>shape := shape_transform H (shape self)
                                     (copy_entries H (foldl (Multiply H) x xs) (Transformation_new H)),
                         priv_stack := PyList []\<rparr>))"
  by (simp add: synchronize_def Let_def)

lemma update_on_list:
  "priv_stack self = PyList xs \<Longrightarrow> matrix self = Some m \<Longrightarrow>
     update H (doc, self) = (Some AttributeError, (doc, self))"
  by (simp add: update_def)

lemma update_none: "matrix self = None \<Longrightarrow> update H (doc, self) = (None, (doc, self))"
  by (simp add: update_def)

lemma update_on_deque:
  "priv_stack self = Deque xs \<Longrightarrow> matrix self = Some m \<Longrightarrow>
     update H (doc, self) =
       (case Find doc (priv_guid self) of
          None \<Rightarrow> (Some AttributeError, (doc, self\<lparr>priv_stack := Deque (m # xs)\<rparr>))
        | Some (k, geo) \<Rightarrow> (None, (doc(k \<mapsto> Geometry_Transform H geo m),
                                    self\<lparr>priv_stack := Deque (m # xs)\<rparr>)))"
  by (simp add: update_def Let_def split: option.splits)

lemma sequence_with_matrix:
  assumes "matrix self = Some m"
  shows "raised (and_then (update H) (and_then (synchronize H) (update H)) (doc, self))"
proof (cases "priv_stack self")
  case (PyList xs)
  then show ?thesis
    using assms by (simp add: and_then_def raised_def update_on_list)
next
  case (Deque xs)
  show ?thesis
  proof (cases "Find doc (priv_guid self)")
    case None
    then show ?thesis
      using assms Deque by (simp add: and_then_def raised_def update_on_deque)
  next
    case (Some kg)
    obtain k geo where kg: "kg = (k, geo)" by (cases kg)
    define self1 where "self1 = self\<lparr>priv_stack := Deque (m # xs)\<rparr>"
    define doc1 where "doc1 = doc(k \<mapsto> Geometry_Transform H geo m)"
    define self2 where
      "self2 = self1\<lparr>shape := shape_transform H (shape self1)
                        (copy_entries H (foldl (Multiply H) m xs) (Transformation_new H)),
                      priv_stack := PyList []\<rparr>"
    have u1: "update H (doc, self) = (None, (doc1, self1))"
      using assms Deque Some kg by (simp add: update_on_deque self1_def doc1_def)
    have el: "elems (priv_stack self1) = m # xs" by (simp add: self1_def)
    have s: "synchronize H (doc1, self1) = (None, (doc1, self2))"
      using synchronize_nonempty [OF el] by (simp add: self2_def)
    have m2: "matrix self2 = Some m"
      using assms by (simp add: matrix_def self2_def self1_def)
    have l2: "priv_stack self2 = PyList []" by (simp add: self2_def)
    have u2: "update H (doc1, self2) = (Some AttributeError, (doc1, self2))"
      by (rule update_on_list [OF l2 m2])
    show ?thesis
      by (simp add: and_then_def raised_def u1 s u2)
  qed
qed

text \<open>A drawn object with a pending matrix is a state an object can be in.\<close>

lemma example_reachable:
  "reachable example_host (ShapeObject_init 1\<lparr>priv_guid := Some 7, priv_matrix := Some 2\<rparr>)"
proof -
  have "reachable example_host (ShapeObject_init (1::int)\<lparr>priv_guid := Some 7\<rparr>)"
    by (rule reachable.set_guid) (rule reachable.init)
  from reachable.set_matrix [OF this, of "\<lambda>_. 2" Map.empty]
  show ?thesis
    by (simp add: matrix_set_def example_host_def)
qed

text \<open>
  Claim C10. \<^verbatim>\<open>synchronize\<close> on an empty batch raises (\<^verbatim>\<open>TypeError\<close> from
  \<^verbatim>\<open>reduce\<close>). Whenever \<^verbatim>\<open>synchronize\<close> returns, the stack is a plain list, and
  \<^verbatim>\<open>update\<close> with a pending matrix on a plain list raises \<^verbatim>\<open>AttributeError\<close>. Hence,
  from every state an object can be in, the sequence \<^verbatim>\<open>update\<close>, \<^verbatim>\<open>synchronize\<close>,
  \<^verbatim>\<open>update\<close> raises at one of its three calls.
\<close>

theorem update_synchronize_update_raises:
  "(elems (priv_stack self) = [] \<longrightarrow> fst (synchronize H (doc, self)) = Some TypeError)
 \<and> (fst (synchronize H (doc, self)) = None \<longrightarrow>
       priv_stack (snd (snd (synchronize H (doc, self)))) = PyList [])
 \<and> (\<forall>xs m. priv_stack self = PyList xs \<and> matrix self = Some m \<longrightarrow>
       fst (update H (doc, self)) = Some AttributeError)
 \<and> (reachable H self \<longrightarrow>
       raised (and_then (update H) (and_then (synchronize H) (update H)) (doc, self)))"
proof (intro conjI impI allI)
  assume "elems (priv_stack self) = []"
  then show "fst (synchronize H (doc, self)) = Some TypeError"
    by (simp add: synchronize_empty)
next
  assume ok: "fst (synchronize H (doc, self)) = None"
  show "priv_stack (snd (snd (synchronize H (doc, self)))) = PyList []"
  proof (cases "elems (priv_stack self)")
    case Nil
    then show ?thesis using ok by (simp add: synchronize_empty)
  next
    case (Cons x xs)
    then show ?thesis by (simp add: synchronize_nonempty)
  qed
next
  fix xs m assume "priv_stack self = PyList xs \<and> matrix self = Some m"
  then show "fst (update H (doc, self)) = Some AttributeError"
    by (simp add: update_on_list)
next
  assume re: "reachable H self"
  show "raised (and_then (update H) (and_then (synchronize H) (update H)) (doc, self))"
  proof (cases "matrix self")
    case None
    then have "priv_stack self = Deque []" using reachable_matrix_stack [OF re] by simp
    then show ?thesis
      using None by (simp add: and_then_def raised_def update_none synchronize_empty)
  next
    case (Some m)
    then show ?thesis by (rule sequence_with_matrix)
  qed
qed

text \<open>The sequence on a drawn object with a pending matrix, and \<^verbatim>\<open>synchronize\<close> on a new object.\<close>

theorem update_synchronize_update_raises_witness:
  "raised (and_then (update example_host)
             (and_then (synchronize example_host) (update example_host))
             ([7 \<mapsto> 1], ShapeObject_init 1\<lparr>priv_guid := Some 7, priv_matrix := Some 2\<rparr>))
   \<and> fst (synchronize example_host ([7 \<mapsto> 1], ShapeObject_init 1)) = Some TypeError"
  using update_synchronize_update_raises
          [of "ShapeObject_init 1\<lparr>priv_guid := Some 7, priv_matrix := Some 2\<rparr>"
              example_host "[7 \<mapsto> 1]"]
        update_synchronize_update_raises [of "ShapeObject_init 1" example_host "[7 \<mapsto> 1]"]
        example_reachable
  by (simp add: ShapeObject_init_def)

text \<open>In the example host, the copied transformation has the entry of the product at (0, 0).\<close>

lemma example_copy:
  "copy_entries example_host X (Transformation_new example_host) (0, 0) = X"
  by (simp add: copy_entries_def example_host_def upt_rec)

text \<open>
  Claim C2. The first \<^verbatim>\<open>update\<close> of a drawn object with pending matrix 2 pushes the
  matrix onto the stack and transforms the geometry of the document, and \<^verbatim>\<open>synchronize\<close>
  then applies the product to the shape and empties the batch, as the claim says. But
  \<^verbatim>\<open>synchronize\<close> leaves a plain list in place of the deque, so the next \<^verbatim>\<open>update\<close>,
  with the matrix still pending, raises \<^verbatim>\<open>AttributeError\<close> and neither pushes nor
  transforms: the batching does not survive the first \<^verbatim>\<open>synchronize\<close>.
\<close>

theorem update_after_synchronize_fails:
  "update example_host ([7 \<mapsto> 1], ShapeObject_init 1\<lparr>priv_guid := Some 7, priv_matrix := Some 2\<rparr>)
     = (None, ([7 \<mapsto> 2],
         \<lparr>shape = 1, priv_guid = Some 7, priv_matrix = Some 2, priv_stack = Deque [2]\<rparr>))
   \<and> synchronize example_host ([7 \<mapsto> 2],
         \<lparr>shape = 1, priv_guid = Some 7, priv_matrix = Some 2, priv_stack = Deque [2]\<rparr>)
     = (None, ([7 \<mapsto> 2],
         \<lparr>shape = 2, priv_guid = Some 7, priv_matrix = Some 2, priv_stack = PyList []\<rparr>))
   \<and> update example_host ([7 \<mapsto> 2],
         \<lparr>shape = 2, priv_guid = Some 7, priv_matrix = Some 2, priv_stack = PyList []\<rparr>)
     = (Some AttributeError, ([7 \<mapsto> 2],
         \<lparr>shape = 2, priv_guid = Some 7, priv_matrix = Some 2, priv_stack = PyList []\<rparr>))"
proof (intro conjI)
  show "update example_host ([7 \<mapsto> 1], ShapeObject_init 1\<lparr>priv_guid := Some 7, priv_matrix := Some 2\<rparr>)
     = (None, ([7 \<mapsto> 2],
         \<lparr>shape = 1, priv_guid = Some 7, priv_matrix = Some 2, priv_stack = Deque [2]\<rparr>))"
    by (simp add: update_def matrix_def ShapeObject_init_def Find_def Let_def example_host_def)
  show "synchronize example_host ([7 \<mapsto> 2],
         \<lparr>shape = 1, priv_guid = Some 7, priv_matrix = Some 2, priv_stack = Deque [2]\<rparr>)
     = (None, ([7 \<mapsto> 2],
         \<lparr>shape = 2, priv_guid = Some 7, priv_matrix = Some 2, priv_stack = PyList []\<rparr>))"
    using example_copy [of 2]
    by (simp add: synchronize_def Let_def) (simp add: example_host_def)
  show "update example_host ([7 \<mapsto> 2],
         \<lparr>shape = 2, priv_guid = Some 7, priv_matrix = Some 2, priv_stack = PyList []\<rparr>)
     = (Some AttributeError, ([7 \<mapsto> 2],
         \<lparr>shape = 2, priv_guid = Some 7, priv_matrix = Some 2, priv_stack = PyList []\<rparr>))"
    by (simp add: update_def matrix_def)
qed

end
